theory Spec2Isabelle
  imports Main "HOL-Library.Sublist" "HOL-Library.AList"
begin

section \<open>Strings as the updater reads them\<close>

text \<open>
  \<open>QString\<close> and \<open>std::string\<close> values are modelled as \<open>string\<close>, a list of
  eight-bit characters. Every needle the updater searches for is plain ASCII, so
  case-insensitive matching folds the letters \<open>A\<close>..\<open>Z\<close> of the haystack and of the
  needle and leaves every other character alone.
\<close>

definition lower_char :: "char \<Rightarrow> char" where
  "lower_char c =
     (let n = (of_char c :: nat) in if 65 \<le> n \<and> n \<le> 90 then char_of (n + 32) else c)"

definition toLower :: "string \<Rightarrow> string" where
  "toLower s = map lower_char s"

text \<open>\<open>std::string::find(needle) != npos\<close>: a case-sensitive substring test.\<close>

definition str_find :: "string \<Rightarrow> string \<Rightarrow> bool" where
  "str_find s needle = sublist needle s"

text \<open>\<open>QString::contains(needle, Qt::CaseInsensitive)\<close>.\<close>

definition containsCI :: "string \<Rightarrow> string \<Rightarrow> bool" where
  "containsCI s needle = sublist (toLower needle) (toLower s)"

text \<open>\<open>QString::endsWith(needle, Qt::CaseInsensitive)\<close>.\<close>

definition endsWithCI :: "string \<Rightarrow> string \<Rightarrow> bool" where
  "endsWithCI s needle = suffix (toLower needle) (toLower s)"

subsection \<open>ExtractCommitHash\<close>

text \<open>
  \<open>std::regex_search\<close> with \<open>([0-9a-fA-F]{7,40})\<close>: the leftmost position from which at
  least seven hexadecimal digits follow; the greedy match takes up to forty of them.
  Without a match the function returns the empty string.
\<close>

definition is_hex :: "char \<Rightarrow> bool" where
  "is_hex c =
     (let n = (of_char c :: nat)
      in (48 \<le> n \<and> n \<le> 57) \<or> (97 \<le> n \<and> n \<le> 102) \<or> (65 \<le> n \<and> n \<le> 70))"

definition match_here :: "string \<Rightarrow> string option" where
  "match_here s =
     (let run = takeWhile is_hex s
      in if 7 \<le> length run then Some (take 40 run) else None)"

fun ExtractCommitHash :: "string \<Rightarrow> string" where
  "ExtractCommitHash [] = []"
| "ExtractCommitHash (c # cs) =
     (case match_here (c # cs) of
        Some m \<Rightarrow> m
      | None \<Rightarrow> ExtractCommitHash cs)"

section \<open>The release feed\<close>

text \<open>
  A parsed JSON value as Qt hands it out. The accessors never fail: \<open>toObject\<close>,
  \<open>toArray\<close> and \<open>toString\<close> of a value of another kind give the empty object, array
  or string, and \<open>value\<close> of an absent key gives \<open>JUndefined\<close>. The updater reads no
  number, so numbers carry an integer only.
\<close>

datatype QJsonValue =
    JNull
  | JBool bool
  | JNumber int
  | JString string
  | JArray "QJsonValue list"
  | JObject "(string \<times> QJsonValue) list"
  | JUndefined

type_synonym QJsonObject = "(string \<times> QJsonValue) list"

text \<open>A document is null (the payload did not parse), an array or an object.\<close>

datatype QJsonDocument =
    DocNull
  | DocArray "QJsonValue list"
  | DocObject QJsonObject

fun isArray :: "QJsonDocument \<Rightarrow> bool" where
  "isArray (DocArray _) = True"
| "isArray _ = False"

fun array :: "QJsonDocument \<Rightarrow> QJsonValue list" where
  "array (DocArray xs) = xs"
| "array _ = []"

fun toObject :: "QJsonValue \<Rightarrow> QJsonObject" where
  "toObject (JObject kvs) = kvs"
| "toObject _ = []"

fun toArray :: "QJsonValue \<Rightarrow> QJsonValue list" where
  "toArray (JArray xs) = xs"
| "toArray _ = []"

fun toString :: "QJsonValue \<Rightarrow> string" where
  "toString (JString s) = s"
| "toString _ = []"

definition value_at :: "QJsonObject \<Rightarrow> string \<Rightarrow> QJsonValue" where
  "value_at obj k = (case map_of obj k of None \<Rightarrow> JUndefined | Some v \<Rightarrow> v)"

section \<open>Build identity, platform and settings\<close>

text \<open>
  The strategy is chosen at compile time: \<open>__linux__\<close>, \<open>_WIN32\<close>, or neither (then
  the asset loop keeps nothing and the download handler does nothing further).
\<close>

datatype platform = Linux | Windows | OtherOS

text \<open>
  What the surrounding program supplies: the baked identity strings of
  \<open>common/scm_rev.h\<close> (declared there, defined by the build), the stored
  \<open>updater/channel\<close> setting (absent until the user picks one), the backup settings,
  and the \<open>APPIMAGE\<close> environment variable.
\<close>

record host =
  target :: platform
  g_citron_variant :: string
  g_citron_version :: string
  g_citron_hash :: string
  settings_channel :: "string option"
  updater_enable_backups :: bool
  updater_backup_path :: string
  APPIMAGE :: "string option"

text \<open>\<open>QSettings().value("updater/channel", "Nightly")\<close>.\<close>

definition stored_channel :: "host \<Rightarrow> string" where
  "stored_channel h = (case settings_channel h of None \<Rightarrow> ''Nightly'' | Some c \<Rightarrow> c)"

definition GetCurrentVersion :: "host \<Rightarrow> string \<Rightarrow> string" where
  "GetCurrentVersion h channel =
     (let active = (if channel = [] then stored_channel h else channel)
      in if toLower active = ''nightly'' then g_citron_hash h else g_citron_version h)"

section \<open>Release records and asset selection\<close>

text \<open>
  Modelled from the spec: the header \<open>updater_service.h\<close> that declares
  \<open>DownloadOption\<close> and \<open>UpdateInfo\<close> is not among the sources. The fields are the
  ones \<open>ParseUpdateResponse\<close> assigns, and they are the fields of the specification's
  \<open>DownloadOption\<close> and \<open>ReleaseInfo\<close>.
\<close>

record DownloadOption =
  name :: string
  url :: string

record UpdateInfo =
  version :: string
  changelog :: string
  release_date :: string
  download_options :: "DownloadOption list"
  is_newer_version :: bool

text \<open>The option built from one asset object, before any filter looks at it.\<close>

definition asset_option :: "QJsonValue \<Rightarrow> DownloadOption" where
  "asset_option asset_val =
     (let asset_obj = toObject asset_val
      in \<lparr>name = toString (value_at asset_obj ''name''),
          url = toString (value_at asset_obj ''browser_download_url'')\<rparr>)"

text \<open>
  One pass of the asset loop: the pair is \<open>(os_valid, variant_matched)\<close>, and
  \<open>push_back\<close> appends. The three platform branches are the three preprocessor
  branches of the source.
\<close>

definition asset_step ::
  "platform \<Rightarrow> string \<Rightarrow> DownloadOption list \<times> DownloadOption list \<Rightarrow> QJsonValue
     \<Rightarrow> DownloadOption list \<times> DownloadOption list" where
  "asset_step p current_variant acc asset_val =
     (let os_valid = fst acc; variant_matched = snd acc;
          opt = asset_option asset_val; nm = name opt
      in case p of
           Linux \<Rightarrow>
             if \<not> endsWithCI nm ''.AppImage'' then acc
             else
               let os_valid = os_valid @ [opt]
               in if str_find current_variant ''aarch64'' \<and> containsCI nm ''aarch64''
                  then (os_valid, variant_matched @ [opt])
                  else if str_find current_variant ''v3'' \<and> containsCI nm ''v3''
                  then (os_valid, variant_matched @ [opt])
                  else if \<not> containsCI nm ''v3'' \<and> \<not> containsCI nm ''aarch64''
                  then (if str_find current_variant ''x86_64''
                           \<and> \<not> str_find current_variant ''v3''
                        then (os_valid, variant_matched @ [opt])
                        else (os_valid, variant_matched))
                  else (os_valid, variant_matched)
         | Windows \<Rightarrow>
             if \<not> endsWithCI nm ''.zip'' \<or> containsCI nm ''PGO'' then acc
             else
               let os_valid = os_valid @ [opt]
               in if str_find current_variant ''v3'' \<and> containsCI nm ''v3''
                  then (os_valid, variant_matched @ [opt])
                  else if \<not> str_find current_variant ''v3'' \<and> \<not> containsCI nm ''v3''
                  then (os_valid, variant_matched @ [opt])
                  else (os_valid, variant_matched)
         | OtherOS \<Rightarrow> acc)"

definition scan_assets ::
  "platform \<Rightarrow> string \<Rightarrow> QJsonValue list \<Rightarrow> DownloadOption list \<times> DownloadOption list" where
  "scan_assets p current_variant assets = foldl (asset_step p current_variant) ([], []) assets"

text \<open>\<open>variant_matched.empty() ? os_valid : variant_matched\<close>.\<close>

definition choose_options :: "DownloadOption list \<times> DownloadOption list \<Rightarrow> DownloadOption list" where
  "choose_options both = (if snd both = [] then fst both else snd both)"

text \<open>
  The version string of a record: the tag on the stable channel, the commit hash in
  the title on any other.
\<close>

definition latest_version :: "string \<Rightarrow> QJsonObject \<Rightarrow> string" where
  "latest_version channel rel_obj =
     (if toLower channel = ''stable'' then toString (value_at rel_obj ''tag_name'')
      else ExtractCommitHash (toString (value_at rel_obj ''name'')))"

text \<open>
  The body of the loop over release records: \<open>None\<close> is \<open>continue\<close> (no version, or no
  option left), \<open>Some info\<close> is the record chosen, after which the function returns.
\<close>

definition release_step :: "host \<Rightarrow> string \<Rightarrow> QJsonValue \<Rightarrow> UpdateInfo option" where
  "release_step h channel rel_val =
     (let rel_obj = toObject rel_val;
          latest_v = latest_version channel rel_obj
      in if latest_v = [] then None
         else
           let assets = toArray (value_at rel_obj ''assets'');
               opts = choose_options (scan_assets (target h) (g_citron_variant h) assets)
           in if opts \<noteq> []
              then Some \<lparr>version = latest_v,
                         changelog = toString (value_at rel_obj ''body''),
                         release_date = toString (value_at rel_obj ''published_at''),
                         download_options = opts,
                         is_newer_version = (GetCurrentVersion h channel \<noteq> latest_v)\<rparr>
              else None)"

fun scan_releases :: "host \<Rightarrow> string \<Rightarrow> QJsonValue list \<Rightarrow> UpdateInfo option" where
  "scan_releases h channel [] = None"
| "scan_releases h channel (rel_val # rest) =
     (case release_step h channel rel_val of
        Some info \<Rightarrow> Some info
      | None \<Rightarrow> scan_releases h channel rest)"

section \<open>The file system the updater works on\<close>

text \<open>
  A path is its list of components below the root, so \<open>a / "b"\<close> is \<open>a @ [''b'']\<close> and
  \<open>parent_path\<close> is \<open>butlast\<close>. A file holds the bytes written to it, or is the batch
  file that \<open>CreateUpdateHelperScript\<close> generates for a staging and an application
  directory. An operation on a path listed in \<open>locked\<close> fails, which stands for every
  refusal of the operating system (permissions, a file in use, a full disk).
\<close>

type_synonym path = "string list"

datatype content = Bytes string | ApplyUpdateScript path path

datatype node = RegularFile content | Directory

record filesystem =
  nodes :: "(path \<times> node) list"
  locked :: "path list"

definition node_at :: "filesystem \<Rightarrow> path \<Rightarrow> node option" where
  "node_at fs p = map_of (nodes fs) p"

definition path_exists :: "filesystem \<Rightarrow> path \<Rightarrow> bool" where
  "path_exists fs p = (p = [] \<or> node_at fs p \<noteq> None)"

definition is_directory :: "filesystem \<Rightarrow> path \<Rightarrow> bool" where
  "is_directory fs p = (p = [] \<or> node_at fs p = Some Directory)"

definition put :: "filesystem \<Rightarrow> path \<Rightarrow> node \<Rightarrow> filesystem" where
  "put fs p n = fs\<lparr>nodes := AList.update p n (nodes fs)\<rparr>"

text \<open>
  Opening a file for writing and writing it (\<open>QFile::open(WriteOnly)\<close>,
  \<open>std::ofstream\<close>): refused on a locked path, on a directory, and where the parent
  is no directory. \<open>None\<close> is the failed open; nothing is written then.
\<close>

definition write_file :: "filesystem \<Rightarrow> path \<Rightarrow> content \<Rightarrow> filesystem option" where
  "write_file fs p c =
     (if p = [] \<or> p \<in> set (locked fs) \<or> node_at fs p = Some Directory
         \<or> \<not> is_directory fs (butlast p)
      then None
      else Some (put fs p (RegularFile c)))"

text \<open>
  \<open>std::filesystem::copy_file(from, to, overwrite_existing)\<close>: \<open>None\<close> is the exception
  (or the error code) of a source that is no regular file, of a copy onto itself, and of
  a destination that cannot be written.
\<close>

definition copy_file :: "filesystem \<Rightarrow> path \<Rightarrow> path \<Rightarrow> filesystem option" where
  "copy_file fs src dst =
     (case node_at fs src of
        Some (RegularFile c) \<Rightarrow> if src = dst then None else write_file fs dst c
      | _ \<Rightarrow> None)"

text \<open>
  \<open>std::filesystem::create_directories\<close>: walks down the components, creating what is
  missing. It stops at a component that is a regular file or cannot be created; the
  directories made before that stay. The flag is \<open>False\<close> where the throwing overload
  throws.
\<close>

fun create_below :: "filesystem \<Rightarrow> path \<Rightarrow> path \<Rightarrow> bool \<times> filesystem" where
  "create_below fs made [] = (True, fs)"
| "create_below fs made (c # cs) =
     (let d = made @ [c]
      in case node_at fs d of
           Some Directory \<Rightarrow> create_below fs d cs
         | Some (RegularFile _) \<Rightarrow> (False, fs)
         | None \<Rightarrow>
             if d \<in> set (locked fs) then (False, fs)
             else create_below (put fs d Directory) d cs)"

definition create_directories :: "filesystem \<Rightarrow> path \<Rightarrow> bool \<times> filesystem" where
  "create_directories fs p = create_below fs [] p"

text \<open>
  \<open>std::filesystem::remove_all(p, ec)\<close>: deletes \<open>p\<close> and everything below it. A locked
  entry at or below \<open>p\<close> makes the call fail; what a failing call has deleted before
  it met that entry is not modelled, the tree is left whole.
\<close>

definition remove_all :: "filesystem \<Rightarrow> path \<Rightarrow> bool \<times> filesystem" where
  "remove_all fs p =
     (if \<exists>q \<in> set (locked fs). prefix p q \<and> path_exists fs q then (False, fs)
      else (True, fs\<lparr>nodes := filter (\<lambda>(q, n). \<not> prefix p q) (nodes fs)\<rparr>))"

text \<open>
  \<open>std::filesystem::rename(from, to, ec)\<close> of a regular file; \<open>Inl\<close> carries the
  message of the error code.
\<close>

definition rename_file :: "filesystem \<Rightarrow> path \<Rightarrow> path \<Rightarrow> string + filesystem" where
  "rename_file fs src dst =
     (case node_at fs src of
        Some (RegularFile c) \<Rightarrow>
          if dst = [] \<or> node_at fs dst = Some Directory then Inl ''Is a directory''
          else if dst \<in> set (locked fs) \<or> src \<in> set (locked fs) then Inl ''Permission denied''
          else if \<not> is_directory fs (butlast dst) then Inl ''No such file or directory''
          else Inr (put (fs\<lparr>nodes := AList.delete src (nodes fs)\<rparr>) dst (RegularFile c))
      | _ \<Rightarrow> Inl ''No such file or directory'')"

text \<open>A path given as text, split at the slashes.\<close>

fun split_path :: "string \<Rightarrow> string \<Rightarrow> path" where
  "split_path cur [] = (if cur = [] then [] else [cur])"
| "split_path cur (c # cs) =
     (if c = CHR ''/'' then (if cur = [] then split_path [] cs else cur # split_path [] cs)
      else split_path (cur @ [c]) cs)"

definition path_of :: "string \<Rightarrow> path" where
  "path_of s = split_path [] s"

section \<open>The updater service\<close>

text \<open>
  Modelled from the spec: the enumeration \<open>UpdateResult\<close> is declared in the missing
  header. Its four values are those of the specification's data model, and the code
  emits each of them.
\<close>

datatype UpdateResult = Success | Failed | ExtractionError | PermissionError

text \<open>The signals of the service, in the order they were emitted.\<close>

datatype signal =
    UpdateCheckCompleted bool UpdateInfo
  | UpdateError string
  | UpdateCompleted UpdateResult string

text \<open>
  A network reply: the slot connected to its \<open>finished\<close> signal (the lambda of
  \<open>CheckForUpdates\<close>, which captures the channel, or \<open>OnDownloadFinished\<close>), whether it
  has finished, its error (\<open>None\<close> is \<open>NoError\<close>, otherwise the error string) and the
  bytes \<open>readAll\<close> returns.
\<close>

datatype slot = CheckFinished string | DownloadFinished

record QNetworkReply =
  request_url :: string
  on_finished :: slot
  finished :: bool
  net_error :: "string option"
  body :: string

record UpdaterService =
  app_directory :: path
  temp_download_path :: path
  backup_path :: path
  update_in_progress :: bool
  cancel_requested :: bool
  current_reply :: "QNetworkReply option"
  current_update_info :: "UpdateInfo option"
  pending_extract :: "path list"
  emitted :: "signal list"
  disk :: filesystem

text \<open>
  The collaborators outside the repository: Qt's JSON parser and the archive extractor
  (libarchive, or PowerShell's \<open>Expand-Archive\<close>), which reports success and leaves the
  file system as it made it.
\<close>

record collaborators =
  fromJson :: "string \<Rightarrow> QJsonDocument"
  extractor :: "filesystem \<Rightarrow> path \<Rightarrow> path \<Rightarrow> bool \<times> filesystem"

definition STABLE_UPDATE_URL :: string where
  "STABLE_UPDATE_URL = ''https://git.citron-emu.org/api/v1/repos/Citron/Emulator/releases''"

definition NIGHTLY_UPDATE_URL :: string where
  "NIGHTLY_UPDATE_URL = ''https://api.github.com/repos/CollectingW/Citron-CI/releases''"

definition emit :: "UpdaterService \<Rightarrow> signal \<Rightarrow> UpdaterService" where
  "emit s sig = s\<lparr>emitted := emitted s @ [sig]\<rparr>"

subsection \<open>Checking for updates\<close>

definition ParseUpdateResponse ::
  "host \<Rightarrow> collaborators \<Rightarrow> string \<Rightarrow> string \<Rightarrow> UpdaterService \<Rightarrow> UpdaterService" where
  "ParseUpdateResponse h env response channel s =
     (let doc = fromJson env response
      in if \<not> isArray doc then s
         else case scan_releases h channel (array doc) of
                Some info \<Rightarrow>
                  emit (s\<lparr>current_update_info := Some info\<rparr>)
                       (UpdateCheckCompleted (is_newer_version info) info)
              | None \<Rightarrow> s)"

definition CheckForUpdates :: "host \<Rightarrow> string \<Rightarrow> UpdaterService \<Rightarrow> UpdaterService" where
  "CheckForUpdates h override_channel s =
     (if update_in_progress s then s
      else
        let channel = (if override_channel = [] then stored_channel h else override_channel);
            update_url = (if toLower channel = ''nightly'' then NIGHTLY_UPDATE_URL
                          else STABLE_UPDATE_URL)
        in s\<lparr>current_reply :=
               Some \<lparr>request_url = update_url, on_finished = CheckFinished channel,
                     finished = False, net_error = None, body = []\<rparr>\<rparr>)"

text \<open>The lambda connected to the \<open>finished\<close> signal of the feed request.\<close>

definition OnCheckFinished ::
  "host \<Rightarrow> collaborators \<Rightarrow> string \<Rightarrow> UpdaterService \<Rightarrow> UpdaterService" where
  "OnCheckFinished h env channel s =
     (case current_reply s of
        None \<Rightarrow> s
      | Some r \<Rightarrow>
          let s1 = (case net_error r of
                      None \<Rightarrow> ParseUpdateResponse h env (body r) channel s
                    | Some msg \<Rightarrow> emit s (UpdateError msg))
          in s1\<lparr>current_reply := None\<rparr>)"

subsection \<open>Backup and restore (staged-helper platform)\<close>

definition CreateBackup :: "UpdaterService \<Rightarrow> bool \<times> UpdaterService" where
  "CreateBackup s =
     (let b_file = backup_path s @ [''citron.exe.bak'']
      in case copy_file (disk s) (app_directory s @ [''citron.exe'']) b_file of
           Some fs1 \<Rightarrow> (True, s\<lparr>disk := fs1\<rparr>)
         | None \<Rightarrow> (False, s))"

definition RestoreBackup :: "UpdaterService \<Rightarrow> bool \<times> UpdaterService" where
  "RestoreBackup s =
     (let b_file = backup_path s @ [''citron.exe.bak'']
      in if path_exists (disk s) b_file
         then (case copy_file (disk s) b_file (app_directory s @ [''citron.exe'']) of
                 Some fs1 \<Rightarrow> (True, s\<lparr>disk := fs1\<rparr>)
               | None \<Rightarrow> (False, s))
         else (False, s))"

subsection \<open>Staging the payload\<close>

text \<open>
  \<open>ExtractArchive\<close> drives the extractor: the libarchive calls in one build variant,
  \<open>Expand-Archive\<close> run as a process in the other. What it returns and what it leaves
  on disk is what the extractor reports and writes.
\<close>

definition ExtractArchive ::
  "collaborators \<Rightarrow> UpdaterService \<Rightarrow> path \<Rightarrow> path \<Rightarrow> bool \<times> UpdaterService" where
  "ExtractArchive env s a_p e_p =
     (let r = extractor env (disk s) a_p e_p in (fst r, s\<lparr>disk := snd r\<rparr>))"

definition CreateUpdateHelperScript :: "UpdaterService \<Rightarrow> path \<Rightarrow> bool \<times> UpdaterService" where
  "CreateUpdateHelperScript s staging_path =
     (case write_file (disk s) (staging_path @ [''apply_update.bat''])
             (ApplyUpdateScript staging_path (app_directory s)) of
        None \<Rightarrow> (False, s)
      | Some fs1 \<Rightarrow> (True, s\<lparr>disk := fs1\<rparr>))"

text \<open>
  The entries \<open>recursive_directory_iterator(u_p)\<close> visits, and the loop over them: a
  regular file is copied to the same relative path below the staging directory, after
  its parent directories are made. The flag is \<open>False\<close> where a call throws; what was
  copied before stays on disk. The entries are listed once, before the copying starts,
  which is what the iterator visits as long as the staging directory does not lie inside
  the extracted tree; a source tree that contains the staging directory is not covered.
\<close>

definition entries_below :: "filesystem \<Rightarrow> path \<Rightarrow> (path \<times> node) list" where
  "entries_below fs u_p = filter (\<lambda>(q, n). strict_prefix u_p q) (nodes fs)"

fun copy_entries ::
  "filesystem \<Rightarrow> path \<Rightarrow> path \<Rightarrow> (path \<times> node) list \<Rightarrow> bool \<times> filesystem" where
  "copy_entries fs u_p staging [] = (True, fs)"
| "copy_entries fs u_p staging ((q, n) # rest) =
     (case n of
        Directory \<Rightarrow> copy_entries fs u_p staging rest
      | RegularFile _ \<Rightarrow>
          let rel = drop (length u_p) q;
              dest = staging @ rel;
              made = create_directories fs (butlast dest)
          in if \<not> fst made then (False, snd made)
             else (case copy_file (snd made) q dest of
                     None \<Rightarrow> (False, snd made)
                   | Some fs2 \<Rightarrow> copy_entries fs2 u_p staging rest))"

definition InstallUpdate :: "UpdaterService \<Rightarrow> path \<Rightarrow> bool \<times> UpdaterService" where
  "InstallUpdate s u_p =
     (let staging = app_directory s @ [''update_staging''];
          first = create_directories (disk s) staging
      in if \<not> fst first then (False, s\<lparr>disk := snd first\<rparr>)
         else
           let cleaned = snd (remove_all (snd first) staging);
               second = create_directories cleaned staging
           in if \<not> fst second then (False, s\<lparr>disk := snd second\<rparr>)
              else if \<not> is_directory (snd second) u_p then (False, s\<lparr>disk := snd second\<rparr>)
              else
                let copied = copy_entries (snd second) u_p staging
                               (entries_below (snd second) u_p)
                in if \<not> fst copied then (False, s\<lparr>disk := snd copied\<rparr>)
                   else CreateUpdateHelperScript (s\<lparr>disk := snd copied\<rparr>) staging)"

text \<open>
  The cleanup loop at the end of the generated batch file, reached once the copy and
  the check for \<open>citron.exe\<close> have passed: \<open>rd /s /q\<close> on the staging directory, and
  while the directory is still there a retry, until \<open>cleanup_retries\<close> reaches five.
  \<open>rd_ok k\<close> says whether the call made with \<open>cleanup_retries = k\<close> gets the tree
  deleted (a file of the old process may still be held open).
\<close>

function cleanup_loop :: "(nat \<Rightarrow> bool) \<Rightarrow> path \<Rightarrow> nat \<Rightarrow> filesystem \<Rightarrow> filesystem" where
  "cleanup_loop rd_ok staging cleanup_retries fs =
     (let fs1 = (if rd_ok cleanup_retries
                 then fs\<lparr>nodes := filter (\<lambda>(q, n). \<not> prefix staging q) (nodes fs)\<rparr>
                 else fs)
      in if path_exists fs1 staging
         then (if cleanup_retries + 1 < 5
               then cleanup_loop rd_ok staging (cleanup_retries + 1) fs1
               else fs1)
         else fs1)"
  by pat_completeness auto
termination
  by (relation "measure (\<lambda>(rd_ok, staging, cleanup_retries, fs). 5 - cleanup_retries)") auto

declare cleanup_loop.simps [simp del]

subsection \<open>Download and install\<close>

definition DownloadAndInstallUpdate :: "host \<Rightarrow> string \<Rightarrow> UpdaterService \<Rightarrow> UpdaterService" where
  "DownloadAndInstallUpdate h download_url s =
     (if update_in_progress s then s
      else
        let s1 = s\<lparr>update_in_progress := True, cancel_requested := False\<rparr>;
            backed = (if target h = Windows then CreateBackup s1 else (True, s1))
        in if \<not> fst backed
           then (emit (snd backed)
                   (UpdateCompleted PermissionError ''Failed to create backup of citron.exe''))
                \<lparr>update_in_progress := False\<rparr>
           else (snd backed)
                \<lparr>current_reply :=
                   Some \<lparr>request_url = download_url, on_finished = DownloadFinished,
                         finished = False, net_error = None, body = []\<rparr>\<rparr>)"

text \<open>
  The direct-replace branch of \<open>OnDownloadFinished\<close>, entered with a non-empty
  \<open>APPIMAGE\<close>. Both backup calls take an error code and their failure is ignored; a
  failed open of the \<open>.new\<close> file skips the replacement. The permission bits are not
  part of the file-system model. The new path is the text of the original path with
  \<open>.new\<close> appended, read as a path again. \<open>GetCurrentVersion()\<close> is called without
  an argument here; the default declared in the missing header is taken to be the empty
  channel, which makes the function read the stored setting.
\<close>

definition replace_appimage ::
  "host \<Rightarrow> string \<Rightarrow> string \<Rightarrow> UpdaterService \<Rightarrow> UpdaterService" where
  "replace_appimage h appimage_env data s =
     (let original_path = path_of appimage_env;
          fs1 = (if updater_enable_backups h
                 then
                   let backup_dir = (if updater_backup_path h = []
                                     then butlast original_path @ [''backup'']
                                     else path_of (updater_backup_path h));
                       fs0 = snd (create_directories (disk s) backup_dir);
                       b_file = backup_dir
                                  @ [''citron-backup-'' @ GetCurrentVersion h [] @ ''.AppImage'']
                   in (case copy_file fs0 original_path b_file of
                         Some fs' \<Rightarrow> fs'
                       | None \<Rightarrow> fs0)
                 else disk s);
          new_path = path_of (appimage_env @ ''.new'')
      in case write_file fs1 new_path (Bytes data) of
           None \<Rightarrow>
             (emit (s\<lparr>disk := fs1\<rparr>) (UpdateCompleted Success ''Success''))
             \<lparr>update_in_progress := False\<rparr>
         | Some fs2 \<Rightarrow>
             (case rename_file fs2 new_path original_path of
                Inl msg \<Rightarrow>
                  (emit (s\<lparr>disk := fs2\<rparr>) (UpdateError (''Failed to replace AppImage: '' @ msg)))
                  \<lparr>update_in_progress := False\<rparr>
              | Inr fs3 \<Rightarrow>
                  (emit (s\<lparr>disk := fs3\<rparr>) (UpdateCompleted Success ''Success''))
                  \<lparr>update_in_progress := False\<rparr>))"

text \<open>
  On the staged-helper platform the handler writes the archive (a failed open is
  ignored) and queues the extraction on a single-shot timer; \<open>pending_extract\<close> holds
  the archive paths of the queued timers.
\<close>

definition OnDownloadFinished :: "host \<Rightarrow> UpdaterService \<Rightarrow> UpdaterService" where
  "OnDownloadFinished h s =
     (case current_reply s of
        None \<Rightarrow> s\<lparr>update_in_progress := False\<rparr>
      | Some r \<Rightarrow>
          if cancel_requested s then s\<lparr>update_in_progress := False\<rparr>
          else
            (case net_error r of
               Some msg \<Rightarrow> (emit s (UpdateError msg))\<lparr>update_in_progress := False\<rparr>
             | None \<Rightarrow>
                 (let data = body r
                  in (case target h of
                        Windows \<Rightarrow>
                          (let zip_path = temp_download_path s @ [''citron_update.zip''];
                               fs1 = (case write_file (disk s) zip_path (Bytes data) of
                                        Some fs' \<Rightarrow> fs'
                                      | None \<Rightarrow> disk s)
                           in s\<lparr>disk := fs1, pending_extract := pending_extract s @ [zip_path]\<rparr>)
                      | Linux \<Rightarrow>
                          (case APPIMAGE h of
                             None \<Rightarrow>
                               (emit s (UpdateError
                                  ''Not running from an AppImage. Manual update required.''))
                               \<lparr>update_in_progress := False\<rparr>
                           | Some appimage_env \<Rightarrow>
                               (if appimage_env = []
                                then (emit s (UpdateError
                                        ''Not running from an AppImage. Manual update required.''))
                                     \<lparr>update_in_progress := False\<rparr>
                                else replace_appimage h appimage_env data s))
                      | OtherOS \<Rightarrow> s))))"

text \<open>The lambda of the single-shot timer, with the archive path it captured.\<close>

definition OnExtractTimer ::
  "collaborators \<Rightarrow> path \<Rightarrow> UpdaterService \<Rightarrow> UpdaterService" where
  "OnExtractTimer env zip_path s =
     (let extract_path = temp_download_path s @ [''extracted''];
          extracted = ExtractArchive env s zip_path extract_path
      in if \<not> fst extracted
         then (emit (snd (RestoreBackup (snd extracted)))
                 (UpdateCompleted ExtractionError
                    ''Failed to extract update. Ensure you have permissions.''))
              \<lparr>update_in_progress := False\<rparr>
         else
           let installed = InstallUpdate (snd extracted) extract_path
           in if \<not> fst installed
              then (emit (snd (RestoreBackup (snd installed)))
                      (UpdateCompleted Failed ''Failed to stage update files.''))
                   \<lparr>update_in_progress := False\<rparr>
              else (emit (snd installed)
                      (UpdateCompleted Success ''Update staged successfully.''))
                   \<lparr>update_in_progress := False\<rparr>)"

definition fire_extract_timer :: "collaborators \<Rightarrow> UpdaterService \<Rightarrow> UpdaterService" where
  "fire_extract_timer env s =
     (case pending_extract s of
        [] \<Rightarrow> s
      | zip_path # rest \<Rightarrow> OnExtractTimer env zip_path (s\<lparr>pending_extract := rest\<rparr>))"

subsection \<open>Replies finishing, and cancellation\<close>

text \<open>
  A reply finishes once: the network layer stores the outcome and the \<open>finished\<close>
  signal runs the connected slot. \<open>QNetworkReply::abort\<close> does the same at once with
  the cancellation error, and does nothing on a reply that has finished. The service
  state holds the one reply that \<open>current_reply\<close> points to, so these functions
  describe runs in which a request is issued only after the previous reply has finished;
  a reply that is still running when \<open>current_reply\<close> is overwritten is not covered.
\<close>

definition run_finished_slot ::
  "host \<Rightarrow> collaborators \<Rightarrow> slot \<Rightarrow> UpdaterService \<Rightarrow> UpdaterService" where
  "run_finished_slot h env sl s =
     (case sl of
        DownloadFinished \<Rightarrow> OnDownloadFinished h s
      | CheckFinished channel \<Rightarrow> OnCheckFinished h env channel s)"

definition reply_finished ::
  "host \<Rightarrow> collaborators \<Rightarrow> string option \<Rightarrow> string \<Rightarrow> UpdaterService \<Rightarrow> UpdaterService" where
  "reply_finished h env err data s =
     (case current_reply s of
        None \<Rightarrow> s
      | Some r \<Rightarrow>
          if finished r then s
          else run_finished_slot h env (on_finished r)
                 (s\<lparr>current_reply :=
                      Some (r\<lparr>finished := True, net_error := err, body := data\<rparr>)\<rparr>))"

definition abort :: "host \<Rightarrow> collaborators \<Rightarrow> UpdaterService \<Rightarrow> UpdaterService" where
  "abort h env s = reply_finished h env (Some ''Operation canceled'') [] s"

definition CancelUpdate :: "host \<Rightarrow> collaborators \<Rightarrow> UpdaterService \<Rightarrow> UpdaterService" where
  "CancelUpdate h env s =
     (if \<not> update_in_progress s then s
      else
        let s1 = s\<lparr>cancel_requested := True\<rparr>;
            s2 = (case current_reply s1 of None \<Rightarrow> s1 | Some r \<Rightarrow> abort h env s1)
        in s2\<lparr>update_in_progress := False\<rparr>)"

definition IsUpdateInProgress :: "UpdaterService \<Rightarrow> bool" where
  "IsUpdateInProgress s = update_in_progress s"

section \<open>The selection rules in the words of the specification\<close>

text \<open>
  The platform filter and the variant filter as predicates on a file name, and the two
  subsets they cut out of an asset list. The asset loop is compared with these below.
\<close>

definition platform_valid :: "platform \<Rightarrow> string \<Rightarrow> bool" where
  "platform_valid p nm =
     (case p of
        Linux \<Rightarrow> endsWithCI nm ''.AppImage''
      | Windows \<Rightarrow> endsWithCI nm ''.zip'' \<and> \<not> containsCI nm ''PGO''
      | OtherOS \<Rightarrow> False)"

definition variant_matches :: "platform \<Rightarrow> string \<Rightarrow> string \<Rightarrow> bool" where
  "variant_matches p current_variant nm =
     (case p of
        Linux \<Rightarrow>
          (str_find current_variant ''aarch64'' \<and> containsCI nm ''aarch64'')
          \<or> (str_find current_variant ''v3'' \<and> containsCI nm ''v3'')
          \<or> (\<not> containsCI nm ''v3'' \<and> \<not> containsCI nm ''aarch64''
              \<and> str_find current_variant ''x86_64'' \<and> \<not> str_find current_variant ''v3'')
      | Windows \<Rightarrow>
          (str_find current_variant ''v3'' \<and> containsCI nm ''v3'')
          \<or> (\<not> str_find current_variant ''v3'' \<and> \<not> containsCI nm ''v3'')
      | OtherOS \<Rightarrow> False)"

definition os_valid_of :: "platform \<Rightarrow> QJsonValue list \<Rightarrow> DownloadOption list" where
  "os_valid_of p assets = filter (\<lambda>opt. platform_valid p (name opt)) (map asset_option assets)"

definition variant_matched_of ::
  "platform \<Rightarrow> string \<Rightarrow> QJsonValue list \<Rightarrow> DownloadOption list" where
  "variant_matched_of p current_variant assets =
     filter (\<lambda>opt. variant_matches p current_variant (name opt)) (os_valid_of p assets)"

text \<open>What one release record yields: its version, its options, and the info built from it.\<close>

definition record_version :: "string \<Rightarrow> QJsonValue \<Rightarrow> string" where
  "record_version channel rel_val = latest_version channel (toObject rel_val)"

definition record_options :: "host \<Rightarrow> QJsonValue \<Rightarrow> DownloadOption list" where
  "record_options h rel_val =
     choose_options
       (scan_assets (target h) (g_citron_variant h)
          (toArray (value_at (toObject rel_val) ''assets'')))"

definition release_info :: "host \<Rightarrow> string \<Rightarrow> QJsonValue \<Rightarrow> UpdateInfo" where
  "release_info h channel rel_val =
     \<lparr>version = record_version channel rel_val,
      changelog = toString (value_at (toObject rel_val) ''body''),
      release_date = toString (value_at (toObject rel_val) ''published_at''),
      download_options = record_options h rel_val,
      is_newer_version = (GetCurrentVersion h channel \<noteq> record_version channel rel_val)\<rparr>"

text \<open>
  The staging directory can be prepared on the disk of a service: both
  \<open>create_directories\<close> calls at the head of \<open>InstallUpdate\<close> succeed.
\<close>

definition staging_prepared :: "UpdaterService \<Rightarrow> bool" where
  "staging_prepared s =
     (let staging = app_directory s @ [''update_staging''];
          first = create_directories (disk s) staging
      in fst first \<and> fst (create_directories (snd (remove_all (snd first) staging)) staging))"

text \<open>Where the single-shot timer extracts the archive to.\<close>

definition extract_path :: "UpdaterService \<Rightarrow> path" where
  "extract_path s = temp_download_path s @ [''extracted'']"

section \<open>Example inputs\<close>

definition asset :: "string \<Rightarrow> string \<Rightarrow> QJsonValue" where
  "asset nm link = JObject [(''name'', JString nm), (''browser_download_url'', JString link)]"

definition example_assets :: "QJsonValue list" where
  "example_assets = [asset ''app-v3.zip'' ''https://dl/app-v3.zip'', asset ''app.zip'' ''https://dl/app.zip'']"

definition untitled_release :: QJsonValue where
  "untitled_release =
     JObject [(''tag_name'', JString ''nightly''), (''name'', JString ''Nightly Build''),
              (''body'', JString ''first''), (''published_at'', JString ''2025-06-02''),
              (''assets'', JArray example_assets)]"

definition hashed_release :: QJsonValue where
  "hashed_release =
     JObject [(''tag_name'', JString ''nightly''), (''name'', JString ''Nightly Build - a1b2c3d''),
              (''body'', JString ''second''), (''published_at'', JString ''2025-06-01''),
              (''assets'', JArray example_assets)]"

definition older_release :: QJsonValue where
  "older_release =
     JObject [(''tag_name'', JString ''nightly''), (''name'', JString ''Nightly Build - 0f0f0f0''),
              (''body'', JString ''third''), (''published_at'', JString ''2025-05-31''),
              (''assets'', JArray example_assets)]"

definition windows_host :: host where
  "windows_host =
     \<lparr>target = Windows, g_citron_variant = ''v3'', g_citron_version = ''v1.2.0'',
      g_citron_hash = ''a1b2c3d'', settings_channel = None, updater_enable_backups = False,
      updater_backup_path = [], APPIMAGE = None\<rparr>"

definition linux_host :: host where
  "linux_host =
     \<lparr>target = Linux, g_citron_variant = ''x86_64'', g_citron_version = ''v1.2.0'',
      g_citron_hash = ''a1b2c3d'', settings_channel = None, updater_enable_backups = False,
      updater_backup_path = [], APPIMAGE = None\<rparr>"

text \<open>
  A parser that knows two payloads: the text \<open>feed\<close> is the array of the three example
  releases, anything else does not parse.
\<close>

definition example_env :: collaborators where
  "example_env =
     \<lparr>fromJson = (\<lambda>response. if response = ''feed''
                               then DocArray [untitled_release, hashed_release, older_release]
                               else DocNull),
      extractor = (\<lambda>fs a_p e_p. (False, fs))\<rparr>"

text \<open>A service as its constructor leaves it, on a disk holding the installed program.\<close>

definition example_disk :: filesystem where
  "example_disk =
     \<lparr>nodes = [([''citron''], Directory),
               ([''citron'', ''citron.exe''], RegularFile (Bytes ''old build'')),
               ([''citron'', ''backup''], Directory),
               ([''tmp''], Directory),
               ([''tmp'', ''citron_updater''], Directory)],
      locked = []\<rparr>"

definition example_service :: UpdaterService where
  "example_service =
     \<lparr>app_directory = [''citron''],
      temp_download_path = [''tmp'', ''citron_updater''],
      backup_path = [''citron'', ''backup''],
      update_in_progress = False,
      cancel_requested = False,
      current_reply = None,
      current_update_info = None,
      pending_extract = [],
      emitted = [],
      disk = example_disk\<rparr>"

text \<open>
  An extractor that unpacks one file, a disk that refuses the helper script, a disk that
  refuses the backup, and a download that has arrived.
\<close>

definition unpacking_env :: collaborators where
  "unpacking_env =
     \<lparr>fromJson = (\<lambda>response. DocNull),
      extractor = (\<lambda>fs a_p e_p.
        (True, put (put fs e_p Directory) (e_p @ [''citron.exe''])
                 (RegularFile (Bytes ''new build''))))\<rparr>"

definition script_refused :: UpdaterService where
  "script_refused =
     example_service
       \<lparr>disk := example_disk\<lparr>locked := [[''citron'', ''update_staging'', ''apply_update.bat'']]\<rparr>\<rparr>"

definition backup_refused :: UpdaterService where
  "backup_refused =
     example_service
       \<lparr>disk := example_disk\<lparr>locked := [[''citron'', ''backup'', ''citron.exe.bak'']]\<rparr>\<rparr>"

definition arrived :: QNetworkReply where
  "arrived =
     \<lparr>request_url = ''https://dl/app-v3.zip'', on_finished = DownloadFinished,
      finished = True, net_error = None, body = ''archive bytes''\<rparr>"

definition downloaded_service :: UpdaterService where
  "downloaded_service = example_service\<lparr>update_in_progress := True, current_reply := Some arrived\<rparr>"

text \<open>
  Four runs on the staged-helper platform: a download under way, the same download
  refused by the server, a whole attempt on the disk that refuses the helper script, and
  a whole attempt that stages the update.
\<close>

definition downloading_service :: UpdaterService where
  "downloading_service =
     DownloadAndInstallUpdate windows_host ''https://dl/app-v3.zip'' example_service"

definition refused_download :: UpdaterService where
  "refused_download =
     reply_finished windows_host example_env (Some ''Connection refused'') [] downloading_service"

definition failed_attempt :: UpdaterService where
  "failed_attempt =
     fire_extract_timer unpacking_env
       (reply_finished windows_host unpacking_env None ''archive bytes''
          (DownloadAndInstallUpdate windows_host ''https://dl/app-v3.zip'' script_refused))"

definition staged_attempt :: UpdaterService where
  "staged_attempt =
     fire_extract_timer unpacking_env
       (reply_finished windows_host unpacking_env None ''archive bytes''
          (DownloadAndInstallUpdate windows_host ''https://dl/app-v3.zip'' example_service))"

text \<open>
  A run with a cancellation between the end of the download and the extraction timer:
  the archive has arrived and the timer is queued, the user cancels, starts a second
  download, and then the timer of the first attempt fires.
\<close>

definition cancelled_before_timer :: UpdaterService where
  "cancelled_before_timer =
     CancelUpdate windows_host unpacking_env
       (reply_finished windows_host unpacking_env None ''archive bytes'' downloading_service)"

definition second_attempt :: UpdaterService where
  "second_attempt =
     DownloadAndInstallUpdate windows_host ''https://dl/app.zip'' cancelled_before_timer"

definition first_timer_fired :: UpdaterService where
  "first_timer_fired = fire_extract_timer unpacking_env second_attempt"

section \<open>Asset selection\<close>

lemma asset_step_filters:
  "asset_step p cv (ov, vm) a =
     (ov @ filter (\<lambda>opt. platform_valid p (name opt)) [asset_option a],
      vm @ filter (\<lambda>opt. variant_matches p cv (name opt))
             (filter (\<lambda>opt. platform_valid p (name opt)) [asset_option a]))"
  by (cases p) (auto simp: asset_step_def platform_valid_def variant_matches_def Let_def)

lemma foldl_asset_step:
  "foldl (asset_step p cv) (ov, vm) assets =
     (ov @ os_valid_of p assets, vm @ variant_matched_of p cv assets)"
proof (induction assets arbitrary: ov vm)
  case Nil
  show ?case by (simp add: os_valid_of_def variant_matched_of_def)
next
  case (Cons a assets)
  show ?case
    by (simp only: foldl_Cons asset_step_filters Cons.IH)
       (simp add: os_valid_of_def variant_matched_of_def)
qed

lemma scan_assets_filters:
  "scan_assets p cv assets = (os_valid_of p assets, variant_matched_of p cv assets)"
  by (simp add: scan_assets_def foldl_asset_step)

lemma variant_matched_nonempty_iff:
  "variant_matched_of p cv assets \<noteq> []
     \<longleftrightarrow> (\<exists>opt \<in> set (os_valid_of p assets). variant_matches p cv (name opt))"
  by (auto simp: variant_matched_of_def filter_empty_conv)

text \<open>
  C2. The asset loop returns the variant-matched subset of the platform-valid assets when
  that subset is non-empty, otherwise the platform-valid subset, which may be empty. As
  soon as one platform-valid asset matches the running variant the result is exactly the
  variant-matched subset.
\<close>

theorem select_assets_priority:
  "(variant_matched_of p cv assets \<noteq> []
      \<longrightarrow> choose_options (scan_assets p cv assets) = variant_matched_of p cv assets)
   \<and> (variant_matched_of p cv assets = []
      \<longrightarrow> choose_options (scan_assets p cv assets) = os_valid_of p assets)
   \<and> (os_valid_of p assets = [] \<longrightarrow> choose_options (scan_assets p cv assets) = [])
   \<and> ((\<exists>opt \<in> set (os_valid_of p assets). variant_matches p cv (name opt))
      \<longrightarrow> choose_options (scan_assets p cv assets) = variant_matched_of p cv assets)"
proof -
  have chosen: "choose_options (scan_assets p cv assets) =
      (if variant_matched_of p cv assets = [] then os_valid_of p assets
       else variant_matched_of p cv assets)"
    by (simp add: scan_assets_filters choose_options_def)
  have empty: "os_valid_of p assets = [] \<Longrightarrow> variant_matched_of p cv assets = []"
    by (simp add: variant_matched_of_def)
  show ?thesis
    using chosen empty variant_matched_nonempty_iff [of p cv assets] by auto
qed

theorem select_assets_priority_witness:
  "variant_matched_of Windows ''v3'' example_assets \<noteq> []
   \<and> choose_options (scan_assets Windows ''v3'' example_assets)
       = [\<lparr>name = ''app-v3.zip'', url = ''https://dl/app-v3.zip''\<rparr>]
   \<and> os_valid_of Windows example_assets
       = [\<lparr>name = ''app-v3.zip'', url = ''https://dl/app-v3.zip''\<rparr>,
          \<lparr>name = ''app.zip'', url = ''https://dl/app.zip''\<rparr>]"
proof -
  have vm: "variant_matched_of Windows ''v3'' example_assets
              = [\<lparr>name = ''app-v3.zip'', url = ''https://dl/app-v3.zip''\<rparr>]"
    by code_simp
  have ov: "os_valid_of Windows example_assets
              = [\<lparr>name = ''app-v3.zip'', url = ''https://dl/app-v3.zip''\<rparr>,
                 \<lparr>name = ''app.zip'', url = ''https://dl/app.zip''\<rparr>]"
    by code_simp
  have ex: "\<exists>opt \<in> set (os_valid_of Windows example_assets).
              variant_matches Windows ''v3'' (name opt)"
    using vm variant_matched_nonempty_iff [of Windows "''v3''" example_assets] by simp
  from select_assets_priority [of Windows "''v3''" example_assets] ex vm ov
  show ?thesis by simp
qed

section \<open>Choosing the release\<close>

lemma release_step_eq:
  "release_step h channel r =
     (if record_version channel r = [] \<or> record_options h r = [] then None
      else Some (release_info h channel r))"
  by (simp add: release_step_def record_version_def record_options_def release_info_def Let_def)

lemma scan_releases_skip:
  "\<forall>x \<in> set skipped. release_step h channel x = None
     \<Longrightarrow> scan_releases h channel (skipped @ rest) = scan_releases h channel rest"
  by (induction skipped) simp_all

lemma scan_releases_first:
  assumes "\<forall>x \<in> set skipped. record_version channel x = [] \<or> record_options h x = []"
    and "record_version channel r \<noteq> []" and "record_options h r \<noteq> []"
  shows "scan_releases h channel (skipped @ r # rest) = Some (release_info h channel r)"
proof -
  have "\<forall>x \<in> set skipped. release_step h channel x = None"
    using assms(1) by (auto simp: release_step_eq)
  then have "scan_releases h channel (skipped @ r # rest) = scan_releases h channel (r # rest)"
    by (rule scan_releases_skip)
  also have "\<dots> = Some (release_info h channel r)"
    using assms(2,3) by (simp add: release_step_eq)
  finally show ?thesis .
qed


text \<open>
  C1, as the claim states it, fails: a record without a version string is passed over
  before its assets are looked at. On the nightly channel the first example record has
  no commit hash in its title; its assets yield download options, yet the info is built
  from the second record.
\<close>

theorem first_compatible_record_counterexample:
  "record_options windows_host untitled_release \<noteq> []
   \<and> scan_releases windows_host ''Nightly'' [untitled_release, hashed_release, older_release]
       = Some (release_info windows_host ''Nightly'' hashed_release)
   \<and> version (release_info windows_host ''Nightly'' hashed_release) = ''a1b2c3d''
   \<and> changelog (release_info windows_host ''Nightly'' hashed_release) = ''second''"
  by code_simp

text \<open>
  C1, amended. For every feed array and channel, \<open>ParseUpdateResponse\<close> chooses the
  first record in feed order that has a non-empty version string and whose assets yield
  a non-empty option list: it stores the info built from that record and emits it,
  whatever records follow.
\<close>

theorem first_versioned_compatible_record:
  assumes "fromJson env response = DocArray (skipped @ r # rest)"
    and "\<forall>x \<in> set skipped. record_version channel x = [] \<or> record_options h x = []"
    and "record_version channel r \<noteq> []"
    and "record_options h r \<noteq> []"
  shows "ParseUpdateResponse h env response channel s =
           emit (s\<lparr>current_update_info := Some (release_info h channel r)\<rparr>)
             (UpdateCheckCompleted (is_newer_version (release_info h channel r))
                (release_info h channel r))"
  using assms(1) scan_releases_first [OF assms(2-4), of rest]
  by (simp add: ParseUpdateResponse_def)

theorem first_versioned_compatible_record_witness:
  "record_version ''Nightly'' untitled_release = []
   \<and> record_version ''Nightly'' hashed_release = ''a1b2c3d''
   \<and> emitted (ParseUpdateResponse windows_host example_env ''feed'' ''Nightly'' example_service)
       = [UpdateCheckCompleted False (release_info windows_host ''Nightly'' hashed_release)]"
proof -
  have doc: "fromJson example_env ''feed'' = DocArray ([untitled_release] @ hashed_release # [older_release])"
    by (simp add: example_env_def)
  have skipped: "\<forall>x \<in> set [untitled_release].
      record_version ''Nightly'' x = [] \<or> record_options windows_host x = []"
    by code_simp
  have v: "record_version ''Nightly'' hashed_release = ''a1b2c3d''"
    by code_simp
  have ver: "record_version ''Nightly'' hashed_release \<noteq> []"
    by (simp add: v)
  have opts: "record_options windows_host hashed_release \<noteq> []"
    by code_simp
  have newer: "is_newer_version (release_info windows_host ''Nightly'' hashed_release) = False"
    by code_simp
  have none: "record_version ''Nightly'' untitled_release = []"
    by code_simp
  have start: "emitted example_service = []"
    by (simp add: example_service_def)
  from first_versioned_compatible_record [OF doc skipped ver opts, of example_service]
  show ?thesis
    by (simp add: emit_def newer none v start)
qed



text \<open>
  C4, as the claim states it, fails: the complete check on a payload that is no JSON
  array ends without any signal, so no error reaches the caller.
\<close>

theorem malformed_feed_counterexample:
  "\<not> isArray (fromJson example_env ''<html>'')
   \<and> emitted (reply_finished windows_host example_env None ''<html>''
                (CheckForUpdates windows_host [] example_service)) = []"
  by (simp add: example_env_def reply_finished_def CheckForUpdates_def example_service_def
        run_finished_slot_def OnCheckFinished_def ParseUpdateResponse_def Let_def)

text \<open>
  C4, amended. For every payload that is not a JSON array, \<open>ParseUpdateResponse\<close>
  returns at once and changes nothing: no signal is emitted and the stored update info is
  kept; the handler of the feed request then only drops the reply.
\<close>

theorem malformed_feed_is_silent:
  assumes "\<not> isArray (fromJson env response)"
  shows "ParseUpdateResponse h env response channel s = s
         \<and> (current_reply s = Some r \<and> net_error r = None \<and> body r = response
              \<longrightarrow> OnCheckFinished h env channel s = s\<lparr>current_reply := None\<rparr>)"
  using assms by (simp add: ParseUpdateResponse_def OnCheckFinished_def)

theorem malformed_feed_is_silent_witness:
  "\<not> isArray (fromJson example_env ''<html>'')
   \<and> ParseUpdateResponse windows_host example_env ''<html>'' ''Nightly'' example_service
       = example_service"
proof -
  have bad: "\<not> isArray (fromJson example_env ''<html>'')"
    by (simp add: example_env_def)
  from malformed_feed_is_silent [OF bad] bad show ?thesis by simp
qed

section \<open>Facts about the file system\<close>

lemma node_at_put: "node_at (put fs p n) q = (if q = p then Some n else node_at fs q)"
  by (simp add: node_at_def put_def update_conv')

lemma locked_put: "locked (put fs p n) = locked fs"
  by (simp add: put_def)

lemma is_directory_put_dir: "is_directory fs d \<Longrightarrow> is_directory (put fs p Directory) d"
  by (simp add: is_directory_def node_at_put)

lemma write_file_keeps_dirs:
  assumes "write_file fs p c = Some fs'" and "is_directory fs d"
  shows "is_directory fs' d"
proof -
  from assms(1) have fs': "fs' = put fs p (RegularFile c)"
    and p: "p \<noteq> []" "node_at fs p \<noteq> Some Directory"
    by (auto simp: write_file_def split: if_splits)
  from assms(2) p have "d \<noteq> p"
    by (auto simp: is_directory_def)
  with assms(2) show ?thesis
    by (simp add: fs' is_directory_def node_at_put)
qed

lemma write_file_result:
  "write_file fs p c = Some fs' \<Longrightarrow> node_at fs' p = Some (RegularFile c)"
  by (auto simp: write_file_def node_at_put split: if_splits)

lemma copy_file_keeps_dirs:
  "copy_file fs src dst = Some fs' \<Longrightarrow> is_directory fs d \<Longrightarrow> is_directory fs' d"
  by (auto simp: copy_file_def split: option.splits node.splits if_splits
           intro: write_file_keeps_dirs)

lemma copy_file_result:
  "copy_file fs src dst = Some fs' \<Longrightarrow> node_at fs' dst = node_at fs src"
  by (auto simp: copy_file_def split: option.splits node.splits if_splits
           dest: write_file_result)

lemma create_below_keeps_dirs:
  "is_directory fs d \<Longrightarrow> is_directory (snd (create_below fs made cs)) d"
proof (induction cs arbitrary: fs made)
  case Nil
  then show ?case by simp
next
  case (Cons c cs)
  show ?case
  proof (cases "node_at fs (made @ [c])")
    case None
    then show ?thesis
      using Cons.prems Cons.IH [of "put fs (made @ [c]) Directory" "made @ [c]"]
      by (simp add: is_directory_put_dir Let_def)
  next
    case (Some n)
    then show ?thesis
      using Cons.prems Cons.IH [of fs "made @ [c]"] by (cases n) (simp_all add: Let_def)
  qed
qed

lemma create_below_makes_dir:
  "fst (create_below fs made cs) \<Longrightarrow> is_directory fs made
     \<Longrightarrow> is_directory (snd (create_below fs made cs)) (made @ cs)"
proof (induction cs arbitrary: fs made)
  case Nil
  then show ?case by simp
next
  case (Cons c cs)
  show ?case
  proof (cases "node_at fs (made @ [c])")
    case None
    with Cons.prems(1) have free: "made @ [c] \<notin> set (locked fs)"
      by (auto simp: Let_def split: if_splits)
    have "is_directory (put fs (made @ [c]) Directory) (made @ [c])"
      by (simp add: is_directory_def node_at_put)
    then show ?thesis
      using None free Cons.prems(1) Cons.IH [of "put fs (made @ [c]) Directory" "made @ [c]"]
      by (simp add: Let_def)
  next
    case (Some n)
    show ?thesis
    proof (cases n)
      case (RegularFile x)
      with Some Cons.prems(1) show ?thesis by (simp add: Let_def)
    next
      case Directory
      with Some have "is_directory fs (made @ [c])"
        by (simp add: is_directory_def)
      then show ?thesis
        using Some Directory Cons.prems(1) Cons.IH [of fs "made @ [c]"] by (simp add: Let_def)
    qed
  qed
qed

lemma create_directories_keeps_dirs:
  "is_directory fs d \<Longrightarrow> is_directory (snd (create_directories fs p)) d"
  by (simp add: create_directories_def create_below_keeps_dirs)

lemma create_directories_makes_dir:
  "fst (create_directories fs p) \<Longrightarrow> is_directory (snd (create_directories fs p)) p"
  using create_below_makes_dir [of fs "[]" p]
  by (simp add: create_directories_def is_directory_def)

lemma copy_entries_keeps_dirs:
  "is_directory fs d \<Longrightarrow> is_directory (snd (copy_entries fs u_p staging entries)) d"
proof (induction entries arbitrary: fs)
  case Nil
  then show ?case by simp
next
  case (Cons e entries)
  obtain q n where e: "e = (q, n)" by (cases e)
  show ?case
  proof (cases n)
    case Directory
    with e Cons show ?thesis by simp
  next
    case (RegularFile c)
    let ?dest = "staging @ drop (length u_p) q"
    let ?made = "create_directories fs (butlast ?dest)"
    have made: "is_directory (snd ?made) d"
      using Cons.prems by (rule create_directories_keeps_dirs)
    show ?thesis
    proof (cases "fst ?made")
      case False
      with e RegularFile made show ?thesis by (simp add: Let_def)
    next
      case True
      show ?thesis
      proof (cases "copy_file (snd ?made) q ?dest")
        case None
        with e RegularFile made True show ?thesis by (simp add: Let_def)
      next
        case (Some fs2)
        then have "is_directory fs2 d"
          using made by (rule copy_file_keeps_dirs)
        then have "is_directory (snd (copy_entries fs2 u_p staging entries)) d"
          by (rule Cons.IH)
        with e RegularFile True Some show ?thesis by (simp add: Let_def)
      qed
    qed
  qed
qed

section \<open>Facts about the service operations\<close>

lemma CreateBackup_flags:
  "fst (CreateBackup (s\<lparr>update_in_progress := a, cancel_requested := b\<rparr>)) = fst (CreateBackup s)"
  by (simp add: CreateBackup_def Let_def split: option.splits)

lemma CreateBackup_failed:
  "\<not> fst (CreateBackup s) \<Longrightarrow> snd (CreateBackup s) = s"
  by (simp add: CreateBackup_def Let_def split: option.splits)

lemma RestoreBackup_frame:
  "emitted (snd (RestoreBackup s)) = emitted s
   \<and> update_in_progress (snd (RestoreBackup s)) = update_in_progress s
   \<and> app_directory (snd (RestoreBackup s)) = app_directory s
   \<and> backup_path (snd (RestoreBackup s)) = backup_path s"
  by (simp add: RestoreBackup_def Let_def split: option.splits)

lemma RestoreBackup_keeps_dirs:
  "is_directory (disk s) d \<Longrightarrow> is_directory (disk (snd (RestoreBackup s))) d"
  by (auto simp: RestoreBackup_def Let_def split: option.splits dest: copy_file_keeps_dirs)

lemma RestoreBackup_copies:
  "fst (RestoreBackup s)
     \<Longrightarrow> node_at (disk (snd (RestoreBackup s))) (app_directory s @ [''citron.exe''])
           = node_at (disk s) (backup_path s @ [''citron.exe.bak''])"
  by (auto simp: RestoreBackup_def Let_def split: option.splits if_splits dest: copy_file_result)

lemma ExtractArchive_frame:
  "emitted (snd (ExtractArchive env s a_p e_p)) = emitted s
   \<and> app_directory (snd (ExtractArchive env s a_p e_p)) = app_directory s"
  by (simp add: ExtractArchive_def Let_def)

lemma CreateUpdateHelperScript_frame:
  "emitted (snd (CreateUpdateHelperScript s p)) = emitted s
   \<and> app_directory (snd (CreateUpdateHelperScript s p)) = app_directory s"
  by (simp add: CreateUpdateHelperScript_def split: option.splits)

lemma CreateUpdateHelperScript_keeps_dirs:
  "is_directory (disk s) d \<Longrightarrow> is_directory (disk (snd (CreateUpdateHelperScript s p))) d"
  by (auto simp: CreateUpdateHelperScript_def split: option.splits dest: write_file_keeps_dirs)

lemma CreateUpdateHelperScript_written:
  "fst (CreateUpdateHelperScript s p)
     \<Longrightarrow> node_at (disk (snd (CreateUpdateHelperScript s p))) (p @ [''apply_update.bat''])
           = Some (RegularFile (ApplyUpdateScript p (app_directory s)))"
  by (auto simp: CreateUpdateHelperScript_def split: option.splits dest: write_file_result)

lemma InstallUpdate_frame:
  "emitted (snd (InstallUpdate s u_p)) = emitted s
   \<and> app_directory (snd (InstallUpdate s u_p)) = app_directory s"
  using CreateUpdateHelperScript_frame
  by (simp add: InstallUpdate_def Let_def)

lemma InstallUpdate_keeps_staging:
  assumes "staging_prepared s"
  shows "is_directory (disk (snd (InstallUpdate s u_p))) (app_directory s @ [''update_staging''])"
proof -
  let ?staging = "app_directory s @ [''update_staging'']"
  let ?first = "create_directories (disk s) ?staging"
  let ?second = "create_directories (snd (remove_all (snd ?first) ?staging)) ?staging"
  let ?copied = "copy_entries (snd ?second) u_p ?staging (entries_below (snd ?second) u_p)"
  from assms have ok: "fst ?first" "fst ?second"
    by (simp_all add: staging_prepared_def Let_def)
  have second: "is_directory (snd ?second) ?staging"
    using ok(2) by (rule create_directories_makes_dir)
  then have copied: "is_directory (snd ?copied) ?staging"
    by (rule copy_entries_keeps_dirs)
  then have script:
    "is_directory (disk (snd (CreateUpdateHelperScript (s\<lparr>disk := snd ?copied\<rparr>) ?staging))) ?staging"
    using CreateUpdateHelperScript_keeps_dirs [of "s\<lparr>disk := snd ?copied\<rparr>" ?staging ?staging]
    by simp
  show ?thesis
    using ok second copied script by (simp add: InstallUpdate_def Let_def)
qed

lemma InstallUpdate_script:
  assumes "fst (InstallUpdate s u_p)"
  shows "staging_prepared s
         \<and> node_at (disk (snd (InstallUpdate s u_p)))
               (app_directory s @ [''update_staging'', ''apply_update.bat''])
             = Some (RegularFile
                 (ApplyUpdateScript (app_directory s @ [''update_staging'']) (app_directory s)))"
proof -
  let ?staging = "app_directory s @ [''update_staging'']"
  let ?first = "create_directories (disk s) ?staging"
  let ?second = "create_directories (snd (remove_all (snd ?first) ?staging)) ?staging"
  let ?copied = "copy_entries (snd ?second) u_p ?staging (entries_below (snd ?second) u_p)"
  from assms have ok: "fst ?first" "fst ?second" "is_directory (snd ?second) u_p" "fst ?copied"
    by (auto simp: InstallUpdate_def Let_def split: if_splits)
  then have eq: "InstallUpdate s u_p = CreateUpdateHelperScript (s\<lparr>disk := snd ?copied\<rparr>) ?staging"
    by (simp add: InstallUpdate_def Let_def)
  have "node_at (disk (snd (CreateUpdateHelperScript (s\<lparr>disk := snd ?copied\<rparr>) ?staging)))
           (?staging @ [''apply_update.bat''])
         = Some (RegularFile (ApplyUpdateScript ?staging (app_directory (s\<lparr>disk := snd ?copied\<rparr>))))"
    using assms eq CreateUpdateHelperScript_written [of "s\<lparr>disk := snd ?copied\<rparr>" ?staging]
    by simp
  then show ?thesis
    using ok eq by (simp add: staging_prepared_def Let_def)
qed

lemma removed_tree_gone:
  "map_of (filter (\<lambda>(q, n). \<not> prefix p q) xs) p = None"
  by (induction xs) auto

lemma cleanup_loop_result:
  "staging \<noteq> [] \<Longrightarrow> path_exists fs staging \<Longrightarrow> k < 5
     \<Longrightarrow> path_exists (cleanup_loop rd_ok staging k fs) staging
           \<longleftrightarrow> \<not> (\<exists>j. k \<le> j \<and> j < 5 \<and> rd_ok j)"
proof (induction rd_ok staging k fs rule: cleanup_loop.induct)
  case (1 rd_ok staging k fs)
  show ?case
  proof (cases "rd_ok k")
    case True
    have "\<not> path_exists (fs\<lparr>nodes := filter (\<lambda>(q, n). \<not> prefix staging q) (nodes fs)\<rparr>) staging"
      using "1.prems"(1) by (simp add: path_exists_def node_at_def removed_tree_gone)
    then have "\<not> path_exists (cleanup_loop rd_ok staging k fs) staging"
      using True by (subst cleanup_loop.simps) (simp add: Let_def)
    moreover have "\<exists>j. k \<le> j \<and> j < 5 \<and> rd_ok j"
      using True "1.prems"(3) by blast
    ultimately show ?thesis by simp
  next
    case False
    show ?thesis
    proof (cases "k + 1 < 5")
      case True
      have step: "cleanup_loop rd_ok staging k fs = cleanup_loop rd_ok staging (k + 1) fs"
        using False True "1.prems"(2) by (subst cleanup_loop.simps) (simp add: Let_def)
      have ih: "path_exists (cleanup_loop rd_ok staging (k + 1) fs) staging
                  \<longleftrightarrow> \<not> (\<exists>j. k + 1 \<le> j \<and> j < 5 \<and> rd_ok j)"
        using "1.IH" [of fs] False True "1.prems" by simp
      have "(\<exists>j. k \<le> j \<and> j < 5 \<and> rd_ok j) \<longleftrightarrow> (\<exists>j. k + 1 \<le> j \<and> j < 5 \<and> rd_ok j)"
      proof
        assume "\<exists>j. k \<le> j \<and> j < 5 \<and> rd_ok j"
        then obtain j where j: "k \<le> j" "j < 5" "rd_ok j" by blast
        with False have "j \<noteq> k" by auto
        with j have "k + 1 \<le> j" by simp
        with j show "\<exists>j. k + 1 \<le> j \<and> j < 5 \<and> rd_ok j" by blast
      next
        assume "\<exists>j. k + 1 \<le> j \<and> j < 5 \<and> rd_ok j"
        then obtain j where j: "k + 1 \<le> j" "j < 5" "rd_ok j" by blast
        then have "k \<le> j" by simp
        with j show "\<exists>j. k \<le> j \<and> j < 5 \<and> rd_ok j" by blast
      qed
      with step ih show ?thesis by simp
    next
      case last: False
      have stop: "cleanup_loop rd_ok staging k fs = fs"
        using False last by (subst cleanup_loop.simps) (simp add: Let_def)
      have "\<not> (\<exists>j. k \<le> j \<and> j < 5 \<and> rd_ok j)"
      proof
        assume "\<exists>j. k \<le> j \<and> j < 5 \<and> rd_ok j"
        then obtain j where j: "k \<le> j" "j < 5" "rd_ok j" by blast
        with last have "j = k" by simp
        with j False show False by simp
      qed
      with stop "1.prems"(2) show ?thesis by simp
    qed
  qed
qed

section \<open>The single-flight guard\<close>

text \<open>
  While the in-progress flag is set, \<open>DownloadAndInstallUpdate\<close> and
  \<open>CheckForUpdates\<close> return at once: the whole service state, with its flag, its
  pending reply and its disk, is what it was.
\<close>

lemma guard_rejects_while_flag_set:
  assumes "update_in_progress s"
  shows "DownloadAndInstallUpdate h download_url s = s
         \<and> CheckForUpdates h override_channel s = s"
  using assms by (simp add: DownloadAndInstallUpdate_def CheckForUpdates_def)

text \<open>
  C7. The guard is meant to keep at most one update attempt in flight, and the code
  misses that in one case. \<open>CancelUpdate\<close> clears the in-progress flag at any stage,
  and the extraction timer, unlike the download handler, never reads the cancel flag.
  On the staged-helper platform, a cancellation after the archive has arrived leaves
  the extraction of the first attempt queued with the flag down; a second
  \<open>DownloadAndInstallUpdate\<close> is then accepted, so that its download runs while the
  first attempt is still queued; the timer of the first, cancelled attempt then stages
  the update and emits \<open>Success\<close>, and clears the flag while the second download is
  still running, so that a third call would be accepted as well.
\<close>

theorem cancel_lets_second_attempt_in:
  "pending_extract cancelled_before_timer = [[''tmp'', ''citron_updater'', ''citron_update.zip'']]
   \<and> update_in_progress cancelled_before_timer = False
   \<and> update_in_progress second_attempt = True
   \<and> pending_extract second_attempt = [[''tmp'', ''citron_updater'', ''citron_update.zip'']]
   \<and> current_reply second_attempt
       = Some \<lparr>request_url = ''https://dl/app.zip'', on_finished = DownloadFinished,
               finished = False, net_error = None, body = []\<rparr>
   \<and> emitted first_timer_fired = [UpdateCompleted Success ''Update staged successfully.'']
   \<and> current_reply first_timer_fired = current_reply second_attempt
   \<and> update_in_progress first_timer_fired = False
   \<and> current_reply
         (DownloadAndInstallUpdate windows_host ''https://dl/third.zip'' first_timer_fired)
       = Some \<lparr>request_url = ''https://dl/third.zip'', on_finished = DownloadFinished,
               finished = False, net_error = None, body = []\<rparr>"
  by code_simp

section \<open>Failing before anything is touched\<close>

text \<open>
  C8. On the staged-helper platform, when the backup copy of \<open>citron.exe\<close> cannot be
  made, \<open>DownloadAndInstallUpdate\<close> issues no request, queues no extraction and
  leaves the disk as it was. A call that passes the single-flight guard emits
  \<open>UpdateCompleted\<close> with \<open>PermissionError\<close> and puts the in-progress flag down
  again; a call the guard rejects does not get as far as the backup.
\<close>

theorem backup_failure_aborts:
  assumes "target h = Windows"
    and "\<not> fst (CreateBackup s)"
  shows "current_reply (DownloadAndInstallUpdate h download_url s) = current_reply s
         \<and> pending_extract (DownloadAndInstallUpdate h download_url s) = pending_extract s
         \<and> disk (DownloadAndInstallUpdate h download_url s) = disk s
         \<and> (\<not> update_in_progress s
            \<longrightarrow> DownloadAndInstallUpdate h download_url s
                  = s\<lparr>cancel_requested := False,
                      emitted := emitted s
                        @ [UpdateCompleted PermissionError
                             ''Failed to create backup of citron.exe'']\<rparr>
                \<and> \<not> update_in_progress (DownloadAndInstallUpdate h download_url s))"
proof (cases "update_in_progress s")
  case True
  then show ?thesis by (simp add: DownloadAndInstallUpdate_def)
next
  case False
  let ?s1 = "s\<lparr>update_in_progress := True, cancel_requested := False\<rparr>"
  have failed: "\<not> fst (CreateBackup ?s1)"
    using assms(2) by (simp add: CreateBackup_flags)
  then have same: "snd (CreateBackup ?s1) = ?s1"
    by (rule CreateBackup_failed)
  have "DownloadAndInstallUpdate h download_url s =
          (emit ?s1 (UpdateCompleted PermissionError ''Failed to create backup of citron.exe''))
          \<lparr>update_in_progress := False\<rparr>"
    using assms(1) False failed same by (simp add: DownloadAndInstallUpdate_def Let_def)
  also have "\<dots> = s\<lparr>cancel_requested := False,
                      emitted := emitted s
                        @ [UpdateCompleted PermissionError ''Failed to create backup of citron.exe'']\<rparr>"
    using False by (cases s) (simp add: emit_def)
  finally show ?thesis using False by simp
qed

theorem backup_failure_aborts_witness:
  "\<not> fst (CreateBackup backup_refused)
   \<and> emitted (DownloadAndInstallUpdate windows_host ''https://dl/app-v3.zip'' backup_refused)
       = [UpdateCompleted PermissionError ''Failed to create backup of citron.exe'']
   \<and> current_reply (DownloadAndInstallUpdate windows_host ''https://dl/app-v3.zip'' backup_refused)
       = None
   \<and> disk (DownloadAndInstallUpdate windows_host ''https://dl/app-v3.zip'' backup_refused)
       = disk backup_refused"
proof -
  have win: "target windows_host = Windows" by code_simp
  have idle: "\<not> update_in_progress backup_refused" by code_simp
  have refused: "\<not> fst (CreateBackup backup_refused)" by code_simp
  have start: "emitted backup_refused = [] \<and> current_reply backup_refused = None" by code_simp
  note aborted = backup_failure_aborts [OF win refused, of "''https://dl/app-v3.zip''"]
  from aborted
  have reply: "current_reply (DownloadAndInstallUpdate windows_host ''https://dl/app-v3.zip''
                   backup_refused) = current_reply backup_refused"
    by blast
  from aborted
  have untouched: "disk (DownloadAndInstallUpdate windows_host ''https://dl/app-v3.zip''
                     backup_refused) = disk backup_refused"
    by blast
  from aborted idle
  have "DownloadAndInstallUpdate windows_host ''https://dl/app-v3.zip'' backup_refused
          = backup_refused\<lparr>cancel_requested := False,
              emitted := emitted backup_refused
                @ [UpdateCompleted PermissionError ''Failed to create backup of citron.exe'']\<rparr>"
    by blast
  then have report: "emitted (DownloadAndInstallUpdate windows_host ''https://dl/app-v3.zip''
                       backup_refused)
                     = [UpdateCompleted PermissionError ''Failed to create backup of citron.exe'']"
    by (simp add: start)
  from refused report reply untouched start show ?thesis by simp
qed

section \<open>Cancelling a download\<close>

lemma run_slot_after_cancel:
  assumes "cancel_requested s" and "current_reply s = Some r"
  shows "OnDownloadFinished h s = s\<lparr>update_in_progress := False\<rparr>"
  using assms by (simp add: OnDownloadFinished_def)

text \<open>
  C6. Cancelling while the download reply is still running sets the cancel flag, aborts
  the reply and clears the in-progress flag. The abort runs the download handler, which
  sees the cancel flag and returns: no signal is emitted, nothing is written to disk and
  no extraction is queued. The handler and the network can do nothing more for this
  attempt afterwards: a further call of the handler, or a late completion of the reply,
  leaves the state as it is.
\<close>

theorem cancel_during_download:
  assumes "update_in_progress s"
    and "current_reply s = Some r"
    and "on_finished r = DownloadFinished"
    and "\<not> finished r"
  shows "CancelUpdate h env s =
           s\<lparr>cancel_requested := True,
             current_reply :=
               Some (r\<lparr>finished := True, net_error := Some ''Operation canceled'', body := []\<rparr>),
             update_in_progress := False\<rparr>
         \<and> \<not> update_in_progress (CancelUpdate h env s)
         \<and> emitted (CancelUpdate h env s) = emitted s
         \<and> disk (CancelUpdate h env s) = disk s
         \<and> pending_extract (CancelUpdate h env s) = pending_extract s
         \<and> OnDownloadFinished h (CancelUpdate h env s) = CancelUpdate h env s
         \<and> reply_finished h env err data (CancelUpdate h env s) = CancelUpdate h env s"
proof -
  let ?r' = "r\<lparr>finished := True, net_error := Some ''Operation canceled'', body := []\<rparr>"
  let ?s1 = "s\<lparr>cancel_requested := True\<rparr>"
  let ?s2 = "?s1\<lparr>current_reply := Some ?r'\<rparr>"
  have slot: "OnDownloadFinished h ?s2 = ?s2\<lparr>update_in_progress := False\<rparr>"
    by (rule run_slot_after_cancel) simp_all
  have aborted: "abort h env ?s1 = ?s2\<lparr>update_in_progress := False\<rparr>"
    using assms(2-4) slot
    by (simp add: abort_def reply_finished_def run_finished_slot_def)
  have result: "CancelUpdate h env s = ?s2\<lparr>update_in_progress := False\<rparr>"
    using assms(1,2) aborted by (simp add: CancelUpdate_def Let_def)
  have again: "OnDownloadFinished h (?s2\<lparr>update_in_progress := False\<rparr>)
                 = ?s2\<lparr>update_in_progress := False\<rparr>"
    using run_slot_after_cancel [of "?s2\<lparr>update_in_progress := False\<rparr>" ?r' h] by simp
  have late: "reply_finished h env err data (?s2\<lparr>update_in_progress := False\<rparr>)
                = ?s2\<lparr>update_in_progress := False\<rparr>"
    by (simp add: reply_finished_def)
  show ?thesis
    using again late by (simp add: result)
qed

theorem cancel_during_download_witness:
  "update_in_progress downloading_service
   \<and> \<not> update_in_progress (CancelUpdate windows_host example_env downloading_service)
   \<and> emitted (CancelUpdate windows_host example_env downloading_service) = []
   \<and> disk (CancelUpdate windows_host example_env downloading_service) = disk downloading_service
   \<and> reply_finished windows_host example_env None ''archive bytes''
        (CancelUpdate windows_host example_env downloading_service)
       = CancelUpdate windows_host example_env downloading_service"
proof -
  let ?r = "\<lparr>request_url = ''https://dl/app-v3.zip'', on_finished = DownloadFinished,
             finished = False, net_error = None, body = []\<rparr>"
  have busy: "update_in_progress downloading_service" by code_simp
  have reply: "current_reply downloading_service = Some ?r" by code_simp
  have slot: "on_finished ?r = DownloadFinished" by simp
  have running: "\<not> finished ?r" by simp
  have start: "emitted downloading_service = []" by code_simp
  note cancelled = cancel_during_download [OF busy reply slot running, of windows_host
      example_env None "''archive bytes''"]
  from cancelled
  have idle: "\<not> update_in_progress (CancelUpdate windows_host example_env downloading_service)"
    by blast
  from cancelled
  have quiet: "emitted (CancelUpdate windows_host example_env downloading_service)
                 = emitted downloading_service"
    by blast
  from cancelled
  have untouched: "disk (CancelUpdate windows_host example_env downloading_service)
                     = disk downloading_service"
    by blast
  from cancelled
  have late: "reply_finished windows_host example_env None ''archive bytes''
                (CancelUpdate windows_host example_env downloading_service)
              = CancelUpdate windows_host example_env downloading_service"
    by blast
  from busy idle quiet untouched late start show ?thesis by simp
qed

section \<open>Failures after the request was issued\<close>

text \<open>
  C5, as the claim states it, fails at the Downloading stage: a refused download emits
  \<open>UpdateError\<close> with the error string of the reply. No \<open>UpdateCompleted\<close> and so no
  \<open>UpdateResult\<close> reaches the caller, and the handler returns before any restore.
\<close>

theorem download_failure_counterexample:
  "emitted refused_download = [UpdateError ''Connection refused'']
   \<and> \<not> update_in_progress refused_download
   \<and> disk refused_download = disk downloading_service"
  by code_simp

text \<open>
  C5, amended. A failed download emits \<open>UpdateError\<close> with the reply's error string and
  clears the in-progress flag; no restore runs and no \<open>UpdateResult\<close> is reported. On
  the staged-helper platform a failed extraction runs \<open>RestoreBackup\<close>, emits
  \<open>UpdateCompleted\<close> with \<open>ExtractionError\<close> and clears the flag; a failed staging
  does the same with \<open>Failed\<close>. A restore that succeeds leaves \<open>citron.exe\<close> with the
  content of the backup file. The service has no state other than the flag.
\<close>

theorem failures_after_request:
  "(current_reply s = Some r \<and> \<not> cancel_requested s \<and> net_error r = Some msg
      \<longrightarrow> OnDownloadFinished h s
            = s\<lparr>emitted := emitted s @ [UpdateError msg], update_in_progress := False\<rparr>)
   \<and> (\<not> fst (ExtractArchive env s zip_path (extract_path s))
      \<longrightarrow> OnExtractTimer env zip_path s
            = (snd (RestoreBackup (snd (ExtractArchive env s zip_path (extract_path s)))))
              \<lparr>emitted := emitted s
                 @ [UpdateCompleted ExtractionError
                      ''Failed to extract update. Ensure you have permissions.''],
               update_in_progress := False\<rparr>)
   \<and> (fst (ExtractArchive env s zip_path (extract_path s))
       \<and> \<not> fst (InstallUpdate (snd (ExtractArchive env s zip_path (extract_path s)))
                  (extract_path s))
      \<longrightarrow> OnExtractTimer env zip_path s
            = (snd (RestoreBackup
                 (snd (InstallUpdate (snd (ExtractArchive env s zip_path (extract_path s)))
                         (extract_path s)))))
              \<lparr>emitted := emitted s
                 @ [UpdateCompleted Failed ''Failed to stage update files.''],
               update_in_progress := False\<rparr>)
   \<and> (fst (RestoreBackup t)
      \<longrightarrow> node_at (disk (snd (RestoreBackup t))) (app_directory t @ [''citron.exe''])
            = node_at (disk t) (backup_path t @ [''citron.exe.bak'']))"
proof -
  let ?x = "ExtractArchive env s zip_path (extract_path s)"
  let ?i = "InstallUpdate (snd ?x) (extract_path s)"
  have download: "current_reply s = Some r \<and> \<not> cancel_requested s \<and> net_error r = Some msg
      \<longrightarrow> OnDownloadFinished h s
            = s\<lparr>emitted := emitted s @ [UpdateError msg], update_in_progress := False\<rparr>"
    by (simp add: OnDownloadFinished_def emit_def)
  have ex: "emitted (snd (RestoreBackup (snd ?x))) = emitted s"
    using RestoreBackup_frame [of "snd ?x"] ExtractArchive_frame [of env s zip_path "extract_path s"]
    by simp
  have inst: "emitted (snd (RestoreBackup (snd ?i))) = emitted s"
    using RestoreBackup_frame [of "snd ?i"] InstallUpdate_frame [of "snd ?x" "extract_path s"]
      ExtractArchive_frame [of env s zip_path "extract_path s"]
    by simp
  have extraction: "\<not> fst ?x
      \<longrightarrow> OnExtractTimer env zip_path s
            = (snd (RestoreBackup (snd ?x)))
              \<lparr>emitted := emitted s
                 @ [UpdateCompleted ExtractionError
                      ''Failed to extract update. Ensure you have permissions.''],
               update_in_progress := False\<rparr>"
    using ex by (simp add: OnExtractTimer_def extract_path_def emit_def Let_def)
  have staging: "fst ?x \<and> \<not> fst ?i
      \<longrightarrow> OnExtractTimer env zip_path s
            = (snd (RestoreBackup (snd ?i)))
              \<lparr>emitted := emitted s
                 @ [UpdateCompleted Failed ''Failed to stage update files.''],
               update_in_progress := False\<rparr>"
    using inst by (simp add: OnExtractTimer_def extract_path_def emit_def Let_def)
  have restore: "fst (RestoreBackup t)
      \<longrightarrow> node_at (disk (snd (RestoreBackup t))) (app_directory t @ [''citron.exe''])
            = node_at (disk t) (backup_path t @ [''citron.exe.bak''])"
    using RestoreBackup_copies [of t] by blast
  from download extraction staging restore show ?thesis by blast
qed

theorem failures_after_request_witness:
  "emitted (OnDownloadFinished windows_host
              (downloaded_service\<lparr>current_reply :=
                 Some (arrived\<lparr>net_error := Some ''Connection refused''\<rparr>)\<rparr>))
     = [UpdateError ''Connection refused'']
   \<and> emitted (OnExtractTimer example_env [''tmp'', ''citron_updater'', ''citron_update.zip'']
                downloaded_service)
       = [UpdateCompleted ExtractionError ''Failed to extract update. Ensure you have permissions.'']
   \<and> \<not> update_in_progress
         (OnExtractTimer example_env [''tmp'', ''citron_updater'', ''citron_update.zip'']
            downloaded_service)
   \<and> emitted (OnExtractTimer unpacking_env [''tmp'', ''citron_updater'', ''citron_update.zip'']
                (script_refused\<lparr>update_in_progress := True\<rparr>))
       = [UpdateCompleted Failed ''Failed to stage update files.'']
   \<and> node_at (disk (snd (RestoreBackup downloading_service))) [''citron'', ''citron.exe'']
       = Some (RegularFile (Bytes ''old build''))"
proof -
  let ?zip = "[''tmp'', ''citron_updater'', ''citron_update.zip'']"
  let ?refused = "arrived\<lparr>net_error := Some ''Connection refused''\<rparr>"
  let ?s1 = "downloaded_service\<lparr>current_reply := Some ?refused\<rparr>"
  let ?s3 = "script_refused\<lparr>update_in_progress := True\<rparr>"
  have reply: "current_reply ?s1 = Some ?refused \<and> \<not> cancel_requested ?s1
                 \<and> net_error ?refused = Some ''Connection refused''"
    by code_simp
  have start1: "emitted ?s1 = []"
    by code_simp
  from failures_after_request [of ?s1 ?refused "''Connection refused''" windows_host
      example_env ?zip ?s1] reply
  have "OnDownloadFinished windows_host ?s1
          = ?s1\<lparr>emitted := emitted ?s1 @ [UpdateError ''Connection refused''],
                update_in_progress := False\<rparr>"
    by blast
  then have first: "emitted (OnDownloadFinished windows_host ?s1)
                      = [UpdateError ''Connection refused'']"
    by (simp add: start1)
  have failed: "\<not> fst (ExtractArchive example_env downloaded_service ?zip
                          (extract_path downloaded_service))"
    by code_simp
  have start2: "emitted downloaded_service = []"
    by code_simp
  from failures_after_request [of downloaded_service arrived "[]" windows_host example_env ?zip
      downloaded_service] failed
  have "OnExtractTimer example_env ?zip downloaded_service
          = (snd (RestoreBackup (snd (ExtractArchive example_env downloaded_service ?zip
                (extract_path downloaded_service)))))
            \<lparr>emitted := emitted downloaded_service
               @ [UpdateCompleted ExtractionError
                    ''Failed to extract update. Ensure you have permissions.''],
             update_in_progress := False\<rparr>"
    by blast
  then have second: "emitted (OnExtractTimer example_env ?zip downloaded_service)
        = [UpdateCompleted ExtractionError
             ''Failed to extract update. Ensure you have permissions.'']
      \<and> \<not> update_in_progress (OnExtractTimer example_env ?zip downloaded_service)"
    by (simp add: start2)
  have unpacked: "fst (ExtractArchive unpacking_env ?s3 ?zip (extract_path ?s3))
      \<and> \<not> fst (InstallUpdate (snd (ExtractArchive unpacking_env ?s3 ?zip (extract_path ?s3)))
                 (extract_path ?s3))"
    by code_simp
  have start3: "emitted ?s3 = []"
    by code_simp
  from failures_after_request [of ?s3 arrived "[]" windows_host unpacking_env ?zip ?s3] unpacked
  have "OnExtractTimer unpacking_env ?zip ?s3
          = (snd (RestoreBackup
               (snd (InstallUpdate (snd (ExtractArchive unpacking_env ?s3 ?zip (extract_path ?s3)))
                       (extract_path ?s3)))))
            \<lparr>emitted := emitted ?s3 @ [UpdateCompleted Failed ''Failed to stage update files.''],
             update_in_progress := False\<rparr>"
    by blast
  then have third: "emitted (OnExtractTimer unpacking_env ?zip ?s3)
        = [UpdateCompleted Failed ''Failed to stage update files.'']"
    by (simp add: start3)
  have restorable: "fst (RestoreBackup downloading_service)"
    by code_simp
  have saved: "node_at (disk downloading_service)
                 (backup_path downloading_service @ [''citron.exe.bak''])
               = Some (RegularFile (Bytes ''old build''))"
    by code_simp
  have app: "app_directory downloading_service = [''citron'']"
    by code_simp
  from failures_after_request [of downloading_service arrived "[]" windows_host example_env ?zip
      downloading_service] restorable
  have "node_at (disk (snd (RestoreBackup downloading_service)))
          (app_directory downloading_service @ [''citron.exe''])
        = node_at (disk downloading_service)
            (backup_path downloading_service @ [''citron.exe.bak''])"
    by blast
  then have fourth: "node_at (disk (snd (RestoreBackup downloading_service)))
                       [''citron'', ''citron.exe'']
                     = Some (RegularFile (Bytes ''old build''))"
    by (simp add: saved app)
  from first second third fourth show ?thesis by blast
qed

section \<open>The staging directory\<close>

text \<open>
  C9, as the claim states it, fails on both outcomes. On the disk that refuses the
  helper script the attempt ends with \<open>Failed\<close>, the in-progress flag is down, and the
  staging directory is still there; no helper is written for such an attempt, so
  nothing removes it. After a successful attempt the directory holds the staged update,
  and it is still there after the helper's cleanup loop when none of its tries gets the
  tree deleted.
\<close>

theorem staging_left_behind_counterexample:
  "emitted failed_attempt = [UpdateCompleted Failed ''Failed to stage update files.'']
   \<and> \<not> update_in_progress failed_attempt
   \<and> pending_extract failed_attempt = []
   \<and> path_exists (disk failed_attempt) [''citron'', ''update_staging'']
   \<and> emitted staged_attempt = [UpdateCompleted Success ''Update staged successfully.'']
   \<and> \<not> update_in_progress staged_attempt
   \<and> path_exists (disk staged_attempt) [''citron'', ''update_staging'']
   \<and> path_exists
         (cleanup_loop (\<lambda>k. False) [''citron'', ''update_staging''] 0 (disk staged_attempt))
         [''citron'', ''update_staging'']"
  by code_simp

text \<open>
  C9, amended. Staging begins by emptying and re-creating the staging directory. Once
  that has succeeded the directory is there when \<open>InstallUpdate\<close> returns, whatever it
  returns, and when the extraction timer has run; after a successful staging it holds
  the helper script. Only the helper's cleanup loop deletes it: the loop tries at most
  five times, and the directory is gone afterwards exactly when one of the five tries
  succeeded.
\<close>

theorem staging_directory_lifetime:
  "(staging_prepared s
      \<longrightarrow> is_directory (disk (snd (InstallUpdate s u_p))) (app_directory s @ [''update_staging'']))
   \<and> (fst (InstallUpdate s u_p)
      \<longrightarrow> staging_prepared s
          \<and> node_at (disk (snd (InstallUpdate s u_p)))
                (app_directory s @ [''update_staging'', ''apply_update.bat''])
              = Some (RegularFile
                  (ApplyUpdateScript (app_directory s @ [''update_staging'']) (app_directory s))))
   \<and> (fst (ExtractArchive env s zip_path (extract_path s))
       \<and> staging_prepared (snd (ExtractArchive env s zip_path (extract_path s)))
      \<longrightarrow> is_directory (disk (OnExtractTimer env zip_path s))
            (app_directory s @ [''update_staging'']))
   \<and> (staging \<noteq> [] \<and> path_exists fs staging
      \<longrightarrow> (path_exists (cleanup_loop rd_ok staging 0 fs) staging
            \<longleftrightarrow> \<not> (\<exists>k<5. rd_ok k)))"
proof -
  let ?x = "ExtractArchive env s zip_path (extract_path s)"
  let ?i = "InstallUpdate (snd ?x) (extract_path s)"
  let ?staging = "app_directory s @ [''update_staging'']"
  have a: "staging_prepared s \<longrightarrow> is_directory (disk (snd (InstallUpdate s u_p))) ?staging"
    using InstallUpdate_keeps_staging [of s u_p] by blast
  have b: "fst (InstallUpdate s u_p)
      \<longrightarrow> staging_prepared s
          \<and> node_at (disk (snd (InstallUpdate s u_p)))
                (app_directory s @ [''update_staging'', ''apply_update.bat''])
              = Some (RegularFile (ApplyUpdateScript ?staging (app_directory s)))"
    using InstallUpdate_script [of s u_p] by blast
  have c: "fst ?x \<and> staging_prepared (snd ?x)
      \<longrightarrow> is_directory (disk (OnExtractTimer env zip_path s)) ?staging"
  proof
    assume h: "fst ?x \<and> staging_prepared (snd ?x)"
    have app: "app_directory (snd ?x) = app_directory s"
      using ExtractArchive_frame [of env s zip_path "extract_path s"] by simp
    have kept: "is_directory (disk (snd ?i)) ?staging"
      using h InstallUpdate_keeps_staging [of "snd ?x" "extract_path s"] app by simp
    then have restored: "is_directory (disk (snd (RestoreBackup (snd ?i)))) ?staging"
      by (rule RestoreBackup_keeps_dirs)
    show "is_directory (disk (OnExtractTimer env zip_path s)) ?staging"
      using h kept restored
      by (simp add: OnExtractTimer_def extract_path_def emit_def Let_def)
  qed
  have d: "staging \<noteq> [] \<and> path_exists fs staging
      \<longrightarrow> (path_exists (cleanup_loop rd_ok staging 0 fs) staging
            \<longleftrightarrow> \<not> (\<exists>k<5. rd_ok k))"
    using cleanup_loop_result [of staging fs 0 rd_ok] by simp
  from a b c d show ?thesis by blast
qed

theorem staging_directory_lifetime_witness:
  "staging_prepared example_service
   \<and> is_directory (disk (snd (InstallUpdate example_service [''tmp''])))
       [''citron'', ''update_staging'']
   \<and> node_at (disk (snd (InstallUpdate example_service [''tmp''])))
       [''citron'', ''update_staging'', ''apply_update.bat'']
       = Some (RegularFile (ApplyUpdateScript [''citron'', ''update_staging''] [''citron'']))
   \<and> is_directory
       (disk (OnExtractTimer unpacking_env [''tmp'', ''citron_updater'', ''citron_update.zip'']
                (script_refused\<lparr>update_in_progress := True\<rparr>)))
       [''citron'', ''update_staging'']
   \<and> \<not> path_exists
         (cleanup_loop (\<lambda>k. k = 3) [''citron'', ''update_staging''] 0
            (disk (snd (InstallUpdate example_service [''tmp'']))))
         [''citron'', ''update_staging'']"
proof -
  let ?after = "disk (snd (InstallUpdate example_service [''tmp'']))"
  let ?zip = "[''tmp'', ''citron_updater'', ''citron_update.zip'']"
  let ?s3 = "script_refused\<lparr>update_in_progress := True\<rparr>"
  have prepared: "staging_prepared example_service"
    by code_simp
  have staged: "fst (InstallUpdate example_service [''tmp''])"
    by code_simp
  have app: "app_directory example_service = [''citron'']"
    by code_simp
  note lifetime = staging_directory_lifetime [of example_service "[''tmp'']" example_env "[]"
      "[''citron'', ''update_staging'']" ?after "\<lambda>k. k = 3"]
  from lifetime prepared
  have "is_directory ?after (app_directory example_service @ [''update_staging''])"
    by blast
  then have dir: "is_directory ?after [''citron'', ''update_staging'']"
    by (simp add: app)
  from lifetime staged
  have "node_at ?after (app_directory example_service @ [''update_staging'', ''apply_update.bat''])
          = Some (RegularFile
              (ApplyUpdateScript (app_directory example_service @ [''update_staging''])
                 (app_directory example_service)))"
    by blast
  then have script: "node_at ?after [''citron'', ''update_staging'', ''apply_update.bat'']
          = Some (RegularFile (ApplyUpdateScript [''citron'', ''update_staging''] [''citron'']))"
    by (simp add: app)
  from dir have there: "path_exists ?after [''citron'', ''update_staging'']"
    by (simp add: is_directory_def path_exists_def)
  have named: "[''citron'', ''update_staging''] \<noteq> []"
    by simp
  have third: "\<exists>k<5. k = (3::nat)"
    by simp
  from lifetime named there third
  have gone: "\<not> path_exists (cleanup_loop (\<lambda>k. k = 3) [''citron'', ''update_staging''] 0 ?after)
            [''citron'', ''update_staging'']"
    by blast
  have unpacked: "fst (ExtractArchive unpacking_env ?s3 ?zip (extract_path ?s3))
      \<and> staging_prepared (snd (ExtractArchive unpacking_env ?s3 ?zip (extract_path ?s3)))"
    by code_simp
  have app3: "app_directory ?s3 = [''citron'']"
    by code_simp
  from staging_directory_lifetime [of ?s3 "[''tmp'']" unpacking_env ?zip
      "[''citron'', ''update_staging'']" ?after "\<lambda>k. k = 3"] unpacked
  have "is_directory (disk (OnExtractTimer unpacking_env ?zip ?s3))
          (app_directory ?s3 @ [''update_staging''])"
    by blast
  then have timer: "is_directory (disk (OnExtractTimer unpacking_env ?zip ?s3))
                      [''citron'', ''update_staging'']"
    by (simp add: app3)
  from prepared dir script timer gone show ?thesis by blast
qed

section \<open>The direct-replace platform without an AppImage\<close>

text \<open>
  C10. On Linux, when a download has finished without error and was not cancelled, and
  \<open>APPIMAGE\<close> is unset or empty, the handler emits the error
  \<open>Not running from an AppImage. Manual update required.\<close>, clears the in-progress
  flag and does nothing else: the disk and every other part of the state are unchanged.
\<close>

theorem no_appimage_reports_error:
  assumes "target h = Linux"
    and "APPIMAGE h = None \<or> APPIMAGE h = Some []"
    and "\<not> cancel_requested s"
    and "current_reply s = Some r"
    and "net_error r = None"
  shows "OnDownloadFinished h s =
           s\<lparr>emitted := emitted s
               @ [UpdateError ''Not running from an AppImage. Manual update required.''],
             update_in_progress := False\<rparr>
         \<and> disk (OnDownloadFinished h s) = disk s
         \<and> \<not> update_in_progress (OnDownloadFinished h s)"
proof -
  have "OnDownloadFinished h s =
          s\<lparr>emitted := emitted s
              @ [UpdateError ''Not running from an AppImage. Manual update required.''],
            update_in_progress := False\<rparr>"
    using assms by (auto simp: OnDownloadFinished_def emit_def)
  then show ?thesis by simp
qed

theorem no_appimage_reports_error_witness:
  "update_in_progress downloaded_service
   \<and> emitted (OnDownloadFinished linux_host downloaded_service)
       = [UpdateError ''Not running from an AppImage. Manual update required.'']
   \<and> disk (OnDownloadFinished linux_host downloaded_service) = disk downloaded_service
   \<and> \<not> update_in_progress (OnDownloadFinished linux_host downloaded_service)"
proof -
  have linux: "target linux_host = Linux" by code_simp
  have unset: "APPIMAGE linux_host = None \<or> APPIMAGE linux_host = Some []" by code_simp
  have live: "\<not> cancel_requested downloaded_service" by code_simp
  have reply: "current_reply downloaded_service = Some arrived" by code_simp
  have fine: "net_error arrived = None" by code_simp
  have busy: "update_in_progress downloaded_service" by code_simp
  have start: "emitted downloaded_service = []" by code_simp
  from no_appimage_reports_error [OF linux unset live reply fine] busy start
  show ?thesis by simp
qed


end
